theory Spec2Isabelle
  imports Main "HOL-Library.Word"
begin

section \<open>The user repository of money\_managment\<close>

text \<open>
  The development embeds \<^verbatim>\<open>internal/domain/user/repo.go\<close> (type
  \<^verbatim>\<open>pgUserRepository\<close>) together with the error values of
  \<^verbatim>\<open>internal/storage\<close> and the \<^verbatim>\<open>logger.Logger\<close> interface.
  The pool (\<^verbatim>\<open>storage.DBPool\<close>) and the logger are injected interfaces: the pool
  is a record of state-passing functions, the logger records its calls in an event trace.
\<close>

subsection \<open>Data\<close>

type_synonym int64 = "64 word"
type_synonym time = int

text \<open>\<^verbatim>\<open>type User struct\<close>; a \<^verbatim>\<open>*User\<close> result is a \<open>User option\<close>
  (\<open>None\<close> is \<^verbatim>\<open>nil\<close>).\<close>

record User =
  ID :: int64
  Username :: string
  Email :: string
  PassHash :: string
  CreateAt :: time
  UpdateAt :: time

text \<open>A Go slice \<^verbatim>\<open>[]User\<close>: \<open>None\<close> is the nil slice that
  \<^verbatim>\<open>var users []User\<close> declares.\<close>

type_synonym 'a slice = "'a list option"

fun append_slice :: "'a slice \<Rightarrow> 'a \<Rightarrow> 'a slice" where
  "append_slice None x = Some [x]"
| "append_slice (Some xs) x = Some (xs @ [x])"

subsection \<open>Go errors\<close>

text \<open>
  An \<^verbatim>\<open>error\<close> value is
  \<^item> \<open>Sentinel s\<close>: a package-level \<^verbatim>\<open>errors.New(s)\<close> variable (the variables of
    this program have pairwise different texts, so the text identifies the variable);
  \<^item> \<open>Wrapped s e\<close>: the result of a \<^verbatim>\<open>fmt.Errorf\<close> whose format has one
    \<^verbatim>\<open>%w\<close> verb, with the formatted text \<open>s\<close> and the operand \<open>e\<close> of
    \<^verbatim>\<open>%w\<close>, which \<^verbatim>\<open>Unwrap\<close> returns;
  \<^item> \<open>Fresh s\<close>: the result of a \<^verbatim>\<open>fmt.Errorf\<close> without \<^verbatim>\<open>%w\<close>, which
    wraps nothing.
  A nilable \<^verbatim>\<open>error\<close> is an \<open>error option\<close>. Two values built alike are
  equal here, where Go compares the pointers of two \<^verbatim>\<open>fmt.Errorf\<close> results; an
  error compared with itself or with a sentinel is not affected. Errors with an
  \<^verbatim>\<open>Is\<close> method of their own, or wrapping several errors, are not covered.
\<close>

datatype error = Sentinel string | Wrapped string error | Fresh string

fun Error :: "error \<Rightarrow> string" where
  "Error (Sentinel s) = s"
| "Error (Wrapped s e) = s"
| "Error (Fresh s) = s"

text \<open>\<^verbatim>\<open>errors.Is\<close> on a non-nil error: compare, then follow \<^verbatim>\<open>Unwrap\<close>.\<close>

fun error_Is :: "error \<Rightarrow> error \<Rightarrow> bool" where
  "error_Is (Wrapped s e) t = (Wrapped s e = t \<or> error_Is e t)"
| "error_Is (Sentinel s) t = (Sentinel s = t)"
| "error_Is (Fresh s) t = (Fresh s = t)"

text \<open>\<^verbatim>\<open>errors.Is(err, target)\<close>, false on a nil \<^verbatim>\<open>err\<close>.\<close>

fun errors_Is :: "error option \<Rightarrow> error \<Rightarrow> bool" where
  "errors_Is None t = False"
| "errors_Is (Some e) t = error_Is e t"

text \<open>\<^verbatim>\<open>pgx.ErrNoRows\<close> and the three variables of \<^verbatim>\<open>package storage\<close>.\<close>

definition ErrNoRows :: error where
  "ErrNoRows = Sentinel ''no rows in result set''"

definition ErrUserAlreadyExists :: error where
  "ErrUserAlreadyExists = Sentinel ''user already exists''"

definition ErrDB :: error where
  "ErrDB = Sentinel ''database error''"

definition ErrNoUsers :: error where
  "ErrNoUsers = Sentinel ''no users found''"

subsection \<open>Formatting\<close>

text \<open>The verb \<^verbatim>\<open>%d\<close> on an \<^verbatim>\<open>int64\<close>: decimal digits, with a minus sign
  for a negative value.\<close>

definition digit_char :: "nat \<Rightarrow> char" where
  "digit_char d = ''0123456789'' ! d"

fun dec_digits :: "nat \<Rightarrow> string" where
  "dec_digits n = (if n < 10 then [digit_char n] else dec_digits (n div 10) @ [digit_char (n mod 10)])"

declare dec_digits.simps [simp del]

definition fmt_d :: "int64 \<Rightarrow> string" where
  "fmt_d i = (if sint i < 0 then CHR ''-'' # dec_digits (nat (- sint i)) else dec_digits (nat (sint i)))"

text \<open>\<^verbatim>\<open>fmt.Errorf(prefix + "%w", err)\<close>.\<close>

definition Errorf_w :: "string \<Rightarrow> error \<Rightarrow> error" where
  "Errorf_w prefix e = Wrapped (prefix @ Error e) e"

text \<open>\<^verbatim>\<open>fmt.Errorf("%w: %s", sentinel, err)\<close>: only the first operand is wrapped, the
  second contributes its text.\<close>

definition Errorf_w_s :: "error \<Rightarrow> error \<Rightarrow> error" where
  "Errorf_w_s sentinel e = Wrapped (Error sentinel @ '': '' @ Error e) sentinel"

text \<open>\<^verbatim>\<open>fmt.Errorf("user with id %d not found", id)\<close>.\<close>

definition not_found :: "int64 \<Rightarrow> error" where
  "not_found i = Fresh (''user with id '' @ fmt_d i @ '' not found'')"

text \<open>\<^verbatim>\<open>fmt.Errorf("user with id %d not found: %w", id, err)\<close>.\<close>

definition not_found_w :: "int64 \<Rightarrow> error \<Rightarrow> error" where
  "not_found_w i e = Wrapped (''user with id '' @ fmt_d i @ '' not found: '' @ Error e) e"

subsection \<open>Logger, pool and the trace of their calls\<close>

datatype level = DebugLevel | InfoLevel | WarnLevel | ErrorLevel

text \<open>The values the repository stores in a \<^verbatim>\<open>logger.Field\<close>.\<close>

datatype fvalue = VError error | VInt64 int64

datatype Field = Field (Key: string) (Value: fvalue)

text \<open>A statement argument: a string, an \<^verbatim>\<open>int64\<close>, or an \<^verbatim>\<open>int\<close>
  (64 bits wide).\<close>

datatype arg = AString string | AInt64 int64 | AInt int64

datatype event =
    Log level string "Field list"
  | PoolExec string "arg list"
  | PoolQuery string "arg list"
  | PoolQueryRow string "arg list"
  | RowsClose

text \<open>\<^verbatim>\<open>pgconn.CommandTag\<close>, read through \<^verbatim>\<open>RowsAffected()\<close> only.\<close>

datatype CommandTag = CommandTag (RowsAffected: int64)

text \<open>A \<^verbatim>\<open>pgx.Row\<close> is what its \<^verbatim>\<open>Scan\<close> leaves in the destinations and
  returns, for the two destination lists the repository uses (one \<^verbatim>\<open>int64\<close>; the
  six fields of a user).\<close>

record Row =
  Scan_int64 :: "int64 \<times> error option"
  Scan_User :: "User \<times> error option"

text \<open>A \<^verbatim>\<open>pgx.Rows\<close> cursor: one entry for each time \<^verbatim>\<open>Next()\<close> returns
  true, holding what \<^verbatim>\<open>Scan\<close> does on that row, and the value of \<^verbatim>\<open>Err()\<close>
  once \<^verbatim>\<open>Next()\<close> has returned false.\<close>

record Rows =
  remaining :: "(User \<times> error option) list"
  Err :: "error option"

text \<open>\<^verbatim>\<open>storage.DBPool\<close> over a store of type \<open>'s\<close>.\<close>

record 's DBPool =
  Exec :: "string \<Rightarrow> arg list \<Rightarrow> 's \<Rightarrow> (CommandTag \<times> error option) \<times> 's"
  Query :: "string \<Rightarrow> arg list \<Rightarrow> 's \<Rightarrow> (Rows \<times> error option) \<times> 's"
  QueryRow :: "string \<Rightarrow> arg list \<Rightarrow> 's \<Rightarrow> Row \<times> 's"

record 's world =
  store :: 's
  events :: "event list"

definition emit :: "event \<Rightarrow> 's world \<Rightarrow> 's world" where
  "emit ev w = w\<lparr>events := events w @ [ev]\<rparr>"

definition log_Error :: "string \<Rightarrow> Field list \<Rightarrow> 's world \<Rightarrow> 's world" where
  "log_Error msg fs = emit (Log ErrorLevel msg fs)"

definition log_Info :: "string \<Rightarrow> Field list \<Rightarrow> 's world \<Rightarrow> 's world" where
  "log_Info msg fs = emit (Log InfoLevel msg fs)"

definition pool_Exec ::
  "'s DBPool \<Rightarrow> string \<Rightarrow> arg list \<Rightarrow> 's world \<Rightarrow> (CommandTag \<times> error option) \<times> 's world" where
  "pool_Exec p sql args w =
     (let (r, s) = Exec p sql args (store w) in (r, emit (PoolExec sql args) (w\<lparr>store := s\<rparr>)))"

definition pool_Query ::
  "'s DBPool \<Rightarrow> string \<Rightarrow> arg list \<Rightarrow> 's world \<Rightarrow> (Rows \<times> error option) \<times> 's world" where
  "pool_Query p sql args w =
     (let (r, s) = Query p sql args (store w) in (r, emit (PoolQuery sql args) (w\<lparr>store := s\<rparr>)))"

definition pool_QueryRow ::
  "'s DBPool \<Rightarrow> string \<Rightarrow> arg list \<Rightarrow> 's world \<Rightarrow> Row \<times> 's world" where
  "pool_QueryRow p sql args w =
     (let (r, s) = QueryRow p sql args (store w) in (r, emit (PoolQueryRow sql args) (w\<lparr>store := s\<rparr>)))"

subsection \<open>The statements\<close>

text \<open>The \<^verbatim>\<open>const query\<close> of each method; a run of white space of the source text
  is written as one space.\<close>

definition create_query :: string where
  "create_query = ''insert into users (username, email, passhash) values ($1, $2, $3) on conflict (email) do nothing returning id''"

definition getbyid_query :: string where
  "getbyid_query = ''select id, username, email, passhash, create_at, update_at from users where id = $1''"

definition update_query :: string where
  "update_query = ''update users set username = $1, email = $2, passhash = $3, update_at = now() where id = $4 returning id, username, email, passhash, create_at, update_at''"

definition delete_query :: string where
  "delete_query = ''delete from users where id = $1''"

definition list_query :: string where
  "list_query = ''select id, username, email, passhash, create_at, update_at from users order by id limit $1 offset $2''"

definition count_query :: string where
  "count_query = ''select count(id) from users''"

subsection \<open>The methods of \<^verbatim>\<open>pgUserRepository\<close>\<close>

text \<open>Each method takes the pool and the world (store and trace) and returns Go's result
  tuple with the new world. The logger appends to the trace.\<close>

definition Create :: "'s DBPool \<Rightarrow> User \<Rightarrow> 's world \<Rightarrow> (int64 \<times> error option) \<times> 's world" where
  "Create p u w =
     (let (row, w1) = pool_QueryRow p create_query
                        [AString (Username u), AString (Email u), AString (PassHash u)] w;
          (id, err) = Scan_int64 row
      in if errors_Is err ErrNoRows then ((0, Some ErrUserAlreadyExists), w1)
         else case err of
             Some e \<Rightarrow>
               ((0, Some (Errorf_w_s ErrDB e)),
                log_Error ''failed to create user'' [Field ''error'' (VError e)] w1)
           | None \<Rightarrow>
               ((id, None),
                log_Info ''created user with id: '' [Field ''user_id'' (VInt64 id)] w1))"

definition GetByID :: "'s DBPool \<Rightarrow> int64 \<Rightarrow> 's world \<Rightarrow> (User option \<times> error option) \<times> 's world" where
  "GetByID p i w =
     (let ((rows, err), w1) = pool_Query p getbyid_query [AInt64 i] w
      in case err of
          Some e \<Rightarrow>
            ((None, Some (Errorf_w ''failed GetByID query: '' e)),
             log_Error ''failed to execute query GetByID''
               [Field ''error'' (VError e), Field ''user_id'' (VInt64 i)] w1)
        | None \<Rightarrow>
            (case remaining rows of
                (u, serr) # rest \<Rightarrow>
                  (case serr of
                      Some e \<Rightarrow>
                        ((None, Some (Errorf_w ''scan GetByID row: '' e)),
                         emit RowsClose
                           (log_Error ''failed to scan row GetByID''
                              [Field ''error'' (VError e), Field ''user_id'' (VInt64 i)] w1))
                    | None \<Rightarrow> ((Some u, None), emit RowsClose w1))
              | [] \<Rightarrow>
                  (case Err rows of
                      Some e \<Rightarrow>
                        ((None, Some (Errorf_w ''rows integration GetByID: '' e)),
                         emit RowsClose
                           (log_Error ''rows iteration err GetByID''
                              [Field ''error'' (VError e), Field ''user_id'' (VInt64 i)] w1))
                    | None \<Rightarrow>
                        ((None, Some (not_found i)),
                         emit RowsClose
                           (log_Info ''user not found'' [Field ''user_id'' (VInt64 i)] w1)))))"

definition Update :: "'s DBPool \<Rightarrow> User \<Rightarrow> 's world \<Rightarrow> (User option \<times> error option) \<times> 's world" where
  "Update p u w =
     (let (row, w1) = pool_QueryRow p update_query
                        [AString (Username u), AString (Email u), AString (PassHash u), AInt64 (ID u)] w;
          (usr, err) = Scan_User row
      in case err of
          Some e \<Rightarrow>
            (let w2 = log_Error ''failed to execute query Update''
                        [Field ''error'' (VError e), Field ''user_id'' (VInt64 (ID u))] w1
             in if errors_Is err ErrNoRows
                then ((None, Some (not_found_w (ID u) e)),
                      log_Error ''user not found'' [Field ''user_id'' (VInt64 (ID u))] w2)
                else ((None, Some (Errorf_w ''failed query Update: '' e)), w2))
        | None \<Rightarrow> ((Some usr, None), w1))"

definition Delete :: "'s DBPool \<Rightarrow> int64 \<Rightarrow> 's world \<Rightarrow> error option \<times> 's world" where
  "Delete p i w =
     (let ((cmdTag, err), w1) = pool_Exec p delete_query [AInt64 i] w
      in case err of
          Some e \<Rightarrow>
            (Some (Errorf_w ''failed delete user: '' e),
             log_Error ''failed to execute query Delete''
               [Field ''error'' (VError e), Field ''user_id'' (VInt64 i)] w1)
        | None \<Rightarrow>
            if RowsAffected cmdTag = 0
            then (Some (not_found i),
                  log_Error ''user not found'' [Field ''user_id'' (VInt64 i)] w1)
            else (None, w1))"

text \<open>The \<^verbatim>\<open>for rows.Next()\<close> loop of \<^verbatim>\<open>List\<close>: \<open>Inl\<close> is the early
  return on a failed \<^verbatim>\<open>Scan\<close>, \<open>Inr\<close> the slice when the cursor is exhausted.\<close>

fun List_loop ::
  "(User \<times> error option) list \<Rightarrow> User slice \<Rightarrow> 's world \<Rightarrow> (error + User slice) \<times> 's world" where
  "List_loop [] users w = (Inr users, w)"
| "List_loop ((u, serr) # rest) users w =
     (case serr of
         Some e \<Rightarrow>
           (Inl (Errorf_w ''failed scan user List: '' e),
            log_Error ''failed scan List'' [Field ''error'' (VError e)] w)
       | None \<Rightarrow> List_loop rest (append_slice users u) w)"

definition List :: "'s DBPool \<Rightarrow> int64 \<Rightarrow> int64 \<Rightarrow> 's world \<Rightarrow> (User slice \<times> error option) \<times> 's world" where
  "List p limit offset w =
     (let ((rows, err), w1) = pool_Query p list_query [AInt limit, AInt offset] w
      in case err of
          Some e \<Rightarrow>
            ((None, Some (Errorf_w ''failed query List: '' e)),
             log_Error ''failed to execute query List'' [Field ''error'' (VError e)] w1)
        | None \<Rightarrow>
            (case List_loop (remaining rows) None w1 of
                (Inl e, w2) \<Rightarrow> ((None, Some e), emit RowsClose w2)
              | (Inr users, w2) \<Rightarrow>
                  (case Err rows of
                      Some e \<Rightarrow>
                        ((None, Some (Errorf_w ''rows interation List: '' e)),
                         emit RowsClose
                           (log_Error ''rows iteration error in users List''
                              [Field ''error'' (VError e)] w2))
                    | None \<Rightarrow> ((users, None), emit RowsClose w2))))"

definition Count :: "'s DBPool \<Rightarrow> 's world \<Rightarrow> (int64 \<times> error option) \<times> 's world" where
  "Count p w =
     (let (row, w1) = pool_QueryRow p count_query [] w;
          (count, err) = Scan_int64 row
      in case err of
          Some e \<Rightarrow>
            ((0, Some (Errorf_w ''failed query Count: '' e)),
             log_Error ''failed execute query Count'' [Field ''error'' (VError e)] w1)
        | None \<Rightarrow>
            if count = 0
            then ((0, Some ErrNoUsers), log_Error ''not users found'' [] w1)
            else ((count, None), w1))"

subsection \<open>Reading a trace\<close>

text \<open>The calls on the pool among the events of a trace.\<close>

fun is_pool_call :: "event \<Rightarrow> bool" where
  "is_pool_call (PoolExec sql args) = True"
| "is_pool_call (PoolQuery sql args) = True"
| "is_pool_call (PoolQueryRow sql args) = True"
| "is_pool_call (Log l msg fs) = False"
| "is_pool_call RowsClose = False"

definition pool_calls :: "event list \<Rightarrow> event list" where
  "pool_calls evs = filter is_pool_call evs"

text \<open>The events a call added to the trace, given the worlds before and after it.\<close>

definition emitted :: "'s world \<Rightarrow> 's world \<Rightarrow> event list" where
  "emitted w w' = drop (length (events w)) (events w')"

fun is_log_at :: "level \<Rightarrow> event \<Rightarrow> bool" where
  "is_log_at l (Log l' msg fs) = (l = l')"
| "is_log_at l (PoolExec sql args) = False"
| "is_log_at l (PoolQuery sql args) = False"
| "is_log_at l (PoolQueryRow sql args) = False"
| "is_log_at l RowsClose = False"

fun is_log :: "event \<Rightarrow> bool" where
  "is_log (Log l msg fs) = True"
| "is_log (PoolExec sql args) = False"
| "is_log (PoolQuery sql args) = False"
| "is_log (PoolQueryRow sql args) = False"
| "is_log RowsClose = False"

text \<open>Some event of the trace is the call \<^verbatim>\<open>Logger.Error(ctx, msg, fs...)\<close> with
  this message and these fields.\<close>

definition error_logged :: "string \<Rightarrow> Field list \<Rightarrow> event list \<Rightarrow> bool" where
  "error_logged msg fs evs = (Log ErrorLevel msg fs \<in> set evs)"

subsection \<open>Pools\<close>

text \<open>A scripted pool in the manner of the \<^verbatim>\<open>pgxmock\<close> pools of the tests: every
  \<^verbatim>\<open>Exec\<close>, \<^verbatim>\<open>Query\<close> and \<^verbatim>\<open>QueryRow\<close> gives the scripted answer.\<close>

definition scripted_pool :: "CommandTag \<times> error option \<Rightarrow> Rows \<times> error option \<Rightarrow> Row \<Rightarrow> unit DBPool" where
  "scripted_pool x q r =
     \<lparr>Exec = (\<lambda>sql args s. (x, s)), Query = (\<lambda>sql args s. (q, s)), QueryRow = (\<lambda>sql args s. (r, s))\<rparr>"

definition no_tag :: "CommandTag \<times> error option" where
  "no_tag = (CommandTag 0, None)"

definition no_rows :: "Rows \<times> error option" where
  "no_rows = (\<lparr>remaining = [], Err = None\<rparr>, None)"

definition no_user :: User where
  "no_user = \<lparr>ID = 0, Username = [], Email = [], PassHash = [], CreateAt = 0, UpdateAt = 0\<rparr>"

definition row_int64 :: "int64 \<Rightarrow> error option \<Rightarrow> Row" where
  "row_int64 v err = \<lparr>Scan_int64 = (v, err), Scan_User = (no_user, err)\<rparr>"

definition row_User :: "User \<Rightarrow> error option \<Rightarrow> Row" where
  "row_User u err = \<lparr>Scan_int64 = (0, err), Scan_User = (u, err)\<rparr>"

text \<open>The user and the driver error of the repository's tests, and an empty world.\<close>

definition dima :: User where
  "dima = \<lparr>ID = 42, Username = ''dima'', Email = ''dima@example.com'', PassHash = ''hash'',
           CreateAt = 1000, UpdateAt = 1000\<rparr>"

definition connection_lost :: error where
  "connection_lost = Sentinel ''database connection lost''"

definition w0 :: "unit world" where
  "w0 = \<lparr>store = (), events = []\<rparr>"

text \<open>A pool on which every call fails with the driver error of the tests.\<close>

definition failing_pool :: "unit DBPool" where
  "failing_pool = scripted_pool (CommandTag 0, Some connection_lost)
     (\<lparr>remaining = [], Err = None\<rparr>, Some connection_lost) (row_int64 0 (Some connection_lost))"

text \<open>A reference store for the statement of \<^verbatim>\<open>Delete\<close>: the relation
  \<^verbatim>\<open>users\<close> is a list of rows, and \<^verbatim>\<open>delete from users where id = $1\<close> removes the
  rows with that id and reports how many there were. The other statements are not
  interpreted.\<close>

definition unsupported :: error where
  "unsupported = Fresh ''statement not interpreted''"

definition users_Exec :: "string \<Rightarrow> arg list \<Rightarrow> User list \<Rightarrow> (CommandTag \<times> error option) \<times> User list" where
  "users_Exec sql args t =
     (case args of
         [AInt64 i] \<Rightarrow>
           if sql = delete_query
           then ((CommandTag (of_nat (length (filter (\<lambda>u. ID u = i) t))), None),
                 filter (\<lambda>u. ID u \<noteq> i) t)
           else ((CommandTag 0, Some unsupported), t)
       | _ \<Rightarrow> ((CommandTag 0, Some unsupported), t))"

definition users_pool :: "User list DBPool" where
  "users_pool =
     \<lparr>Exec = users_Exec,
      Query = (\<lambda>sql args t. ((\<lparr>remaining = [], Err = None\<rparr>, Some unsupported), t)),
      QueryRow = (\<lambda>sql args t. (row_int64 0 (Some unsupported), t))\<rparr>"

section \<open>Properties\<close>

subsection \<open>Errors and wrapping\<close>

lemma error_Is_refl: "error_Is e e"
  by (cases e) simp_all

subsection \<open>The result of each method, from the answer of the pool\<close>

lemma Create_unfold:
  assumes "QueryRow p create_query [AString (Username u), AString (Email u), AString (PassHash u)] (store w) = (row, s)"
    and "Scan_int64 row = (v, err)"
  shows "fst (Create p u w) =
     (if errors_Is err ErrNoRows then (0, Some ErrUserAlreadyExists)
      else case err of Some e \<Rightarrow> (0, Some (Errorf_w_s ErrDB e)) | None \<Rightarrow> (v, None))"
  using assms by (simp add: Create_def pool_QueryRow_def split: option.splits)

lemma GetByID_unfold:
  assumes "Query p getbyid_query [AInt64 i] (store w) = ((rows, qerr), s)"
  shows "fst (GetByID p i w) =
     (case qerr of
         Some e \<Rightarrow> (None, Some (Errorf_w ''failed GetByID query: '' e))
       | None \<Rightarrow>
           (case remaining rows of
               (u, serr) # rest \<Rightarrow>
                 (case serr of
                     Some e \<Rightarrow> (None, Some (Errorf_w ''scan GetByID row: '' e))
                   | None \<Rightarrow> (Some u, None))
             | [] \<Rightarrow>
                 (case Err rows of
                     Some e \<Rightarrow> (None, Some (Errorf_w ''rows integration GetByID: '' e))
                   | None \<Rightarrow> (None, Some (not_found i)))))"
  using assms
  by (simp add: GetByID_def pool_Query_def split: option.splits list.splits prod.splits)

lemma Count_unfold:
  assumes "QueryRow p count_query [] (store w) = (row, s)"
    and "Scan_int64 row = (c, err)"
  shows "fst (Count p w) =
     (case err of Some e \<Rightarrow> (0, Some (Errorf_w ''failed query Count: '' e))
      | None \<Rightarrow> if c = 0 then (0, Some ErrNoUsers) else (c, None))"
  using assms by (simp add: Count_def pool_QueryRow_def split: option.splits)

text \<open>The answers of a scripted pool.\<close>

lemma scripted_Query: "Query (scripted_pool x q r) sql args s = (q, s)"
  by (simp add: scripted_pool_def)

lemma scripted_QueryRow: "QueryRow (scripted_pool x q r) sql args s = (r, s)"
  by (simp add: scripted_pool_def)

lemma scripted_Exec: "Exec (scripted_pool x q r) sql args s = (x, s)"
  by (simp add: scripted_pool_def)

lemma Scan_int64_row_int64: "Scan_int64 (row_int64 v err) = (v, err)"
  by (simp add: row_int64_def)

lemma Scan_User_row_User: "Scan_User (row_User u err) = (u, err)"
  by (simp add: row_User_def)

subsection \<open>GetByID\<close>

text \<open>
  C1, as stated, fails: \<^verbatim>\<open>GetByID\<close> has a fourth failure outcome beside the three of
  the claim. When the query succeeds, the cursor yields no row and \<^verbatim>\<open>rows.Err()\<close>
  reports an iteration error, the method returns a nil user and an error wrapping that
  cause with the context \<^verbatim>\<open>rows integration GetByID\<close>, which is none of the three.
\<close>

theorem GetByID_fourth_failure_counterexample:
  "fst (GetByID (scripted_pool no_tag (\<lparr>remaining = [], Err = Some connection_lost\<rparr>, None) (row_int64 0 None)) 42 w0)
     = (None, Some (Wrapped ''rows integration GetByID: database connection lost'' connection_lost))
   \<and> Wrapped ''rows integration GetByID: database connection lost'' connection_lost
       \<noteq> Errorf_w ''failed GetByID query: '' connection_lost
   \<and> Wrapped ''rows integration GetByID: database connection lost'' connection_lost
       \<noteq> not_found 42
   \<and> Wrapped ''rows integration GetByID: database connection lost'' connection_lost
       \<noteq> Errorf_w ''scan GetByID row: '' connection_lost"
  by (simp add: GetByID_unfold [OF scripted_Query] Errorf_w_def not_found_def connection_lost_def)

text \<open>
  C1, amended: for every id, \<^verbatim>\<open>GetByID\<close> distinguishes four failure outcomes. A
  failed query call gives a nil user and an error wrapping the cause with the context
  \<^verbatim>\<open>failed GetByID query\<close>; a query with zero rows and no iteration error gives a nil
  user and a locally built not-found error carrying the id, which matches no sentinel; a
  query with zero rows and an iteration error gives a nil user and an error wrapping that
  cause with the context \<^verbatim>\<open>rows integration GetByID\<close>; a first row whose scan fails
  gives a nil user and an error wrapping the scan cause with the context
  \<^verbatim>\<open>scan GetByID row\<close>; a first row whose scan succeeds gives the user and no error.
\<close>

theorem GetByID_outcomes:
  assumes q: "Query p getbyid_query [AInt64 i] (store w) = ((rows, qerr), s)"
  shows "(\<forall>e. qerr = Some e \<longrightarrow>
            fst (GetByID p i w) = (None, Some (Wrapped (''failed GetByID query: '' @ Error e) e))
            \<and> errors_Is (snd (fst (GetByID p i w))) e)
       \<and> (qerr = None \<and> remaining rows = [] \<and> Err rows = None \<longrightarrow>
            fst (GetByID p i w) = (None, Some (Fresh (''user with id '' @ fmt_d i @ '' not found'')))
            \<and> (\<forall>t. \<not> errors_Is (snd (fst (GetByID p i w))) (Sentinel t)))
       \<and> (\<forall>e. qerr = None \<and> remaining rows = [] \<and> Err rows = Some e \<longrightarrow>
            fst (GetByID p i w) = (None, Some (Wrapped (''rows integration GetByID: '' @ Error e) e))
            \<and> errors_Is (snd (fst (GetByID p i w))) e)
       \<and> (\<forall>u e rest. qerr = None \<and> remaining rows = (u, Some e) # rest \<longrightarrow>
            fst (GetByID p i w) = (None, Some (Wrapped (''scan GetByID row: '' @ Error e) e))
            \<and> errors_Is (snd (fst (GetByID p i w))) e)
       \<and> (\<forall>u rest. qerr = None \<and> remaining rows = (u, None) # rest \<longrightarrow>
            fst (GetByID p i w) = (Some u, None))"
  by (simp add: GetByID_unfold [OF q] Errorf_w_def not_found_def error_Is_refl)

theorem GetByID_outcomes_witness:
  "fst (GetByID (scripted_pool no_tag (\<lparr>remaining = [], Err = None\<rparr>, Some connection_lost) (row_int64 0 None)) 42 w0)
     = (None, Some (Wrapped ''failed GetByID query: database connection lost'' connection_lost))
   \<and> fst (GetByID (scripted_pool no_tag (\<lparr>remaining = [], Err = None\<rparr>, None) (row_int64 0 None)) 99 w0)
     = (None, Some (Fresh ''user with id 99 not found''))
   \<and> fst (GetByID (scripted_pool no_tag (\<lparr>remaining = [], Err = Some connection_lost\<rparr>, None) (row_int64 0 None)) 42 w0)
     = (None, Some (Wrapped ''rows integration GetByID: database connection lost'' connection_lost))
   \<and> fst (GetByID (scripted_pool no_tag (\<lparr>remaining = [(no_user, Some (Fresh ''invalid timestamp''))], Err = None\<rparr>, None) (row_int64 0 None)) 42 w0)
     = (None, Some (Wrapped ''scan GetByID row: invalid timestamp'' (Fresh ''invalid timestamp'')))
   \<and> fst (GetByID (scripted_pool no_tag (\<lparr>remaining = [(dima, None)], Err = None\<rparr>, None) (row_int64 0 None)) 42 w0)
     = (Some dima, None)"
proof -
  have f99: "fmt_d 99 = ''99''"
    by code_simp
  show ?thesis
    using GetByID_outcomes [OF scripted_Query [where x = no_tag and r = "row_int64 0 None"
        and q = "(\<lparr>remaining = [], Err = None\<rparr>, Some connection_lost)" and sql = getbyid_query and args = "[AInt64 42]"]]
      GetByID_outcomes [OF scripted_Query [where x = no_tag and r = "row_int64 0 None"
        and q = "(\<lparr>remaining = [], Err = None\<rparr>, None)" and sql = getbyid_query and args = "[AInt64 99]"]]
      GetByID_outcomes [OF scripted_Query [where x = no_tag and r = "row_int64 0 None"
        and q = "(\<lparr>remaining = [], Err = Some connection_lost\<rparr>, None)" and sql = getbyid_query and args = "[AInt64 42]"]]
      GetByID_outcomes [OF scripted_Query [where x = no_tag and r = "row_int64 0 None"
        and q = "(\<lparr>remaining = [(no_user, Some (Fresh ''invalid timestamp''))], Err = None\<rparr>, None)" and sql = getbyid_query and args = "[AInt64 42]"]]
      GetByID_outcomes [OF scripted_Query [where x = no_tag and r = "row_int64 0 None"
        and q = "(\<lparr>remaining = [(dima, None)], Err = None\<rparr>, None)" and sql = getbyid_query and args = "[AInt64 42]"]]
    by (simp add: f99 connection_lost_def)
qed

subsection \<open>Create\<close>

text \<open>
  C2, as stated, fails: on a driver error that is not the zero-rows condition
  \<^verbatim>\<open>Create\<close> returns id 0 and an error that matches \<^verbatim>\<open>storage.ErrDB\<close>, but the
  format \<^verbatim>\<open>"%w: %s"\<close> wraps the sentinel only, so \<^verbatim>\<open>errors.Is\<close> on the root
  cause does not succeed.
\<close>

theorem Create_root_cause_counterexample:
  "fst (Create (scripted_pool no_tag no_rows (row_int64 0 (Some connection_lost))) dima w0)
     = (0, Some (Wrapped ''database error: database connection lost'' ErrDB))
   \<and> \<not> errors_Is (Some connection_lost) ErrNoRows
   \<and> errors_Is (snd (fst (Create (scripted_pool no_tag no_rows (row_int64 0 (Some connection_lost))) dima w0))) ErrDB
   \<and> \<not> errors_Is (snd (fst (Create (scripted_pool no_tag no_rows (row_int64 0 (Some connection_lost))) dima w0))) connection_lost"
  by (simp add: Create_unfold [OF scripted_QueryRow Scan_int64_row_int64] connection_lost_def
      ErrNoRows_def ErrDB_def Errorf_w_s_def)

text \<open>
  C2, amended: for every input user, when the insert of \<^verbatim>\<open>Create\<close> fails with an
  error other than the zero-rows condition, \<^verbatim>\<open>Create\<close> returns id 0 and an error
  that wraps \<^verbatim>\<open>storage.ErrDB\<close>, so matching on that sentinel succeeds, and that carries
  the original failure as text only (\<^verbatim>\<open>database error: \<close> followed by the text of the
  cause): the chain of the returned error holds the returned error and
  \<^verbatim>\<open>storage.ErrDB\<close> and nothing else.
\<close>

theorem Create_database_error:
  assumes "QueryRow p create_query [AString (Username u), AString (Email u), AString (PassHash u)] (store w) = (row, s)"
    and "Scan_int64 row = (v, Some e)"
    and "\<not> error_Is e ErrNoRows"
  shows "fst (Create p u w) = (0, Some (Wrapped (''database error: '' @ Error e) ErrDB))
       \<and> errors_Is (snd (fst (Create p u w))) ErrDB
       \<and> (\<forall>t. errors_Is (snd (fst (Create p u w))) t
              \<longleftrightarrow> t = Wrapped (''database error: '' @ Error e) ErrDB \<or> t = ErrDB)"
  using assms(3) by (auto simp add: Create_unfold [OF assms(1,2)] Errorf_w_s_def ErrDB_def)

theorem Create_database_error_witness:
  "fst (Create (scripted_pool no_tag no_rows (row_int64 0 (Some connection_lost))) dima w0)
     = (0, Some (Wrapped ''database error: database connection lost'' ErrDB))
   \<and> errors_Is (snd (fst (Create (scripted_pool no_tag no_rows (row_int64 0 (Some connection_lost))) dima w0))) ErrDB"
proof -
  have c: "\<not> error_Is connection_lost ErrNoRows"
    by (simp add: connection_lost_def ErrNoRows_def)
  show ?thesis
    using Create_database_error [OF scripted_QueryRow Scan_int64_row_int64 c]
    by (simp add: connection_lost_def error_Is_refl)
qed

text \<open>
  C3: for every input user, if the insert of \<^verbatim>\<open>Create\<close> reports the zero-rows
  condition (\<^verbatim>\<open>errors.Is(err, pgx.ErrNoRows)\<close>), \<^verbatim>\<open>Create\<close> returns
  \<^verbatim>\<open>storage.ErrUserAlreadyExists\<close> and the identifier 0, whatever \<^verbatim>\<open>Scan\<close> left in
  the identifier and whatever the fields of the user.
\<close>

theorem Create_already_exists:
  assumes "QueryRow p create_query [AString (Username u), AString (Email u), AString (PassHash u)] (store w) = (row, s)"
    and "Scan_int64 row = (v, err)"
    and "errors_Is err ErrNoRows"
  shows "fst (Create p u w) = (0, Some ErrUserAlreadyExists)"
  using assms(3) by (simp add: Create_unfold [OF assms(1,2)])

theorem Create_already_exists_witness:
  "fst (Create (scripted_pool no_tag no_rows (row_int64 7 (Some ErrNoRows))) dima w0)
     = (0, Some ErrUserAlreadyExists)
   \<and> fst (Create (scripted_pool no_tag no_rows
             (row_int64 7 (Some (Wrapped ''insert: no rows in result set'' ErrNoRows)))) dima w0)
     = (0, Some ErrUserAlreadyExists)"
proof -
  have c: "errors_Is (Some ErrNoRows) ErrNoRows"
    by (simp add: ErrNoRows_def)
  have d: "errors_Is (Some (Wrapped ''insert: no rows in result set'' ErrNoRows)) ErrNoRows"
    by (simp add: ErrNoRows_def)
  show ?thesis
    using Create_already_exists [OF scripted_QueryRow Scan_int64_row_int64 c]
      Create_already_exists [OF scripted_QueryRow Scan_int64_row_int64 d]
    by simp
qed

subsection \<open>Count\<close>

text \<open>
  C6: when the scanned count is zero \<^verbatim>\<open>Count\<close> returns the value 0 and
  \<^verbatim>\<open>storage.ErrNoUsers\<close>; a count other than zero is returned as it is with no error;
  a failure of the query or of the scan gives the value 0 and an error wrapping the cause.
\<close>

theorem Count_outcomes:
  assumes "QueryRow p count_query [] (store w) = (row, s)"
    and "Scan_int64 row = (c, err)"
  shows "(err = None \<and> c = 0 \<longrightarrow> fst (Count p w) = (0, Some ErrNoUsers))
       \<and> (err = None \<and> c \<noteq> 0 \<longrightarrow> fst (Count p w) = (c, None))
       \<and> (\<forall>e. err = Some e \<longrightarrow>
            fst (Count p w) = (0, Some (Wrapped (''failed query Count: '' @ Error e) e))
            \<and> errors_Is (snd (fst (Count p w))) e)"
  by (simp add: Count_unfold [OF assms] Errorf_w_def error_Is_refl)

theorem Count_outcomes_witness:
  "fst (Count (scripted_pool no_tag no_rows (row_int64 0 None)) w0) = (0, Some ErrNoUsers)
   \<and> fst (Count (scripted_pool no_tag no_rows (row_int64 5 None)) w0) = (5, None)
   \<and> fst (Count (scripted_pool no_tag no_rows (row_int64 5 (Some connection_lost))) w0)
       = (0, Some (Wrapped ''failed query Count: database connection lost'' connection_lost))"
  using Count_outcomes [OF scripted_QueryRow [where x = no_tag and q = no_rows and r = "row_int64 0 None"]
      Scan_int64_row_int64]
    Count_outcomes [OF scripted_QueryRow [where x = no_tag and q = no_rows and r = "row_int64 5 None"]
      Scan_int64_row_int64]
    Count_outcomes [OF scripted_QueryRow [where x = no_tag and q = no_rows and r = "row_int64 5 (Some connection_lost)"]
      Scan_int64_row_int64]
  by (simp add: connection_lost_def)

subsection \<open>Update\<close>

lemma Update_unfold:
  assumes "QueryRow p update_query [AString (Username u), AString (Email u), AString (PassHash u), AInt64 (ID u)] (store w) = (row, s)"
    and "Scan_User row = (usr, err)"
  shows "fst (Update p u w) =
     (case err of
         Some e \<Rightarrow> if error_Is e ErrNoRows then (None, Some (not_found_w (ID u) e))
                   else (None, Some (Errorf_w ''failed query Update: '' e))
       | None \<Rightarrow> (Some usr, None))"
  using assms by (simp add: Update_def pool_QueryRow_def Let_def split: option.splits)

lemma Update_events:
  "pool_calls (events (snd (Update p u w))) =
     pool_calls (events w) @ [PoolQueryRow update_query
        [AString (Username u), AString (Email u), AString (PassHash u), AInt64 (ID u)]]"
  by (simp add: Update_def pool_QueryRow_def Let_def pool_calls_def emit_def log_Error_def
      split: option.splits prod.splits)

text \<open>
  C4: when the update-and-return statement of \<^verbatim>\<open>Update\<close> reports the zero-rows condition,
  \<^verbatim>\<open>Update\<close> returns a nil user and a not-found error carrying the id that wraps the error
  of the statement, so that \<^verbatim>\<open>errors.Is\<close> on the zero-rows condition succeeds; any other
  failure of the statement gives a nil user and an error wrapping the cause with the context
  \<^verbatim>\<open>failed query Update\<close>; the one call \<^verbatim>\<open>Update\<close> makes on the pool is that statement,
  so no existence check precedes it.
\<close>

theorem Update_outcomes:
  assumes "QueryRow p update_query [AString (Username u), AString (Email u), AString (PassHash u), AInt64 (ID u)] (store w) = (row, s)"
    and "Scan_User row = (usr, err)"
  shows "(\<forall>e. err = Some e \<and> error_Is e ErrNoRows \<longrightarrow>
            fst (Update p u w)
              = (None, Some (Wrapped (''user with id '' @ fmt_d (ID u) @ '' not found: '' @ Error e) e))
            \<and> errors_Is (snd (fst (Update p u w))) ErrNoRows)
       \<and> (\<forall>e. err = Some e \<and> \<not> error_Is e ErrNoRows \<longrightarrow>
            fst (Update p u w) = (None, Some (Wrapped (''failed query Update: '' @ Error e) e))
            \<and> errors_Is (snd (fst (Update p u w))) e)
       \<and> pool_calls (events (snd (Update p u w))) =
           pool_calls (events w) @ [PoolQueryRow update_query
             [AString (Username u), AString (Email u), AString (PassHash u), AInt64 (ID u)]]"
  by (simp add: Update_unfold [OF assms] Update_events not_found_w_def Errorf_w_def error_Is_refl)

theorem Update_outcomes_witness:
  "fst (Update (scripted_pool no_tag no_rows (row_User no_user (Some ErrNoRows))) dima w0)
     = (None, Some (Wrapped ''user with id 42 not found: no rows in result set'' ErrNoRows))
   \<and> errors_Is (snd (fst (Update (scripted_pool no_tag no_rows (row_User no_user (Some ErrNoRows))) dima w0))) ErrNoRows
   \<and> fst (Update (scripted_pool no_tag no_rows (row_User no_user (Some connection_lost))) dima w0)
     = (None, Some (Wrapped ''failed query Update: database connection lost'' connection_lost))
   \<and> pool_calls (events (snd (Update (scripted_pool no_tag no_rows (row_User no_user (Some ErrNoRows))) dima w0)))
     = [PoolQueryRow update_query [AString ''dima'', AString ''dima@example.com'', AString ''hash'', AInt64 42]]"
proof -
  have f42: "fmt_d 42 = ''42''"
    by code_simp
  show ?thesis
    using Update_outcomes [OF scripted_QueryRow [where x = no_tag and q = no_rows
          and r = "row_User no_user (Some ErrNoRows)"] Scan_User_row_User, of dima]
      Update_outcomes [OF scripted_QueryRow [where x = no_tag and q = no_rows
          and r = "row_User no_user (Some connection_lost)"] Scan_User_row_User, of dima]
    by (simp add: f42 connection_lost_def ErrNoRows_def dima_def pool_calls_def w0_def)
qed

text \<open>
  C10: a failure of \<^verbatim>\<open>Scan\<close> on the returned row reaches \<^verbatim>\<open>Update\<close> as the one error of
  \<^verbatim>\<open>QueryRow(...).Scan(...)\<close>, so when it is not the zero-rows condition \<^verbatim>\<open>Update\<close>
  returns the error of context \<^verbatim>\<open>failed query Update\<close>; for the same cause
  \<^verbatim>\<open>GetByID\<close> returns two different errors, one for a failed query and one for a failed
  scan.
\<close>

theorem Update_scan_failure:
  assumes "QueryRow p update_query [AString (Username u), AString (Email u), AString (PassHash u), AInt64 (ID u)] (store w) = (row, s)"
    and "Scan_User row = (usr, Some e)"
    and "\<not> error_Is e ErrNoRows"
  shows "fst (Update p u w) = (None, Some (Wrapped (''failed query Update: '' @ Error e) e))
       \<and> fst (GetByID (scripted_pool x (rows, Some e) r) i w0)
           = (None, Some (Wrapped (''failed GetByID query: '' @ Error e) e))
       \<and> fst (GetByID (scripted_pool x (\<lparr>remaining = [(usr, Some e)], Err = None\<rparr>, None) r) i w0)
           = (None, Some (Wrapped (''scan GetByID row: '' @ Error e) e))"
  using assms(3)
  by (simp add: Update_unfold [OF assms(1,2)] GetByID_unfold [OF scripted_Query] Errorf_w_def)

theorem Update_scan_failure_witness:
  "fst (Update (scripted_pool no_tag no_rows (row_User no_user (Some (Fresh ''invalid timestamp'')))) dima w0)
     = (None, Some (Wrapped ''failed query Update: invalid timestamp'' (Fresh ''invalid timestamp'')))"
proof -
  have c: "\<not> error_Is (Fresh ''invalid timestamp'') ErrNoRows"
    by (simp add: ErrNoRows_def)
  show ?thesis
    using Update_scan_failure [OF scripted_QueryRow Scan_User_row_User c]
    by simp
qed

subsection \<open>Delete\<close>

lemma Delete_unfold:
  assumes "Exec p delete_query [AInt64 i] (store w) = ((tag, xerr), s)"
  shows "Delete p i w =
     (case xerr of
         Some e \<Rightarrow> (Some (Errorf_w ''failed delete user: '' e),
                    log_Error ''failed to execute query Delete''
                      [Field ''error'' (VError e), Field ''user_id'' (VInt64 i)]
                      (emit (PoolExec delete_query [AInt64 i]) (w\<lparr>store := s\<rparr>)))
       | None \<Rightarrow>
           if RowsAffected tag = 0
           then (Some (not_found i),
                 log_Error ''user not found'' [Field ''user_id'' (VInt64 i)]
                   (emit (PoolExec delete_query [AInt64 i]) (w\<lparr>store := s\<rparr>)))
           else (None, emit (PoolExec delete_query [AInt64 i]) (w\<lparr>store := s\<rparr>)))"
  using assms by (simp add: Delete_def pool_Exec_def split: option.splits)

lemma store_emit: "store (emit ev w) = store w"
  by (simp add: emit_def)

lemma store_log_Error: "store (log_Error msg fs w) = store w"
  by (simp add: log_Error_def emit_def)

lemma users_Exec_delete:
  "Exec users_pool delete_query [AInt64 i] t =
     ((CommandTag (of_nat (length (filter (\<lambda>u. ID u = i) t))), None), filter (\<lambda>u. ID u \<noteq> i) t)"
  by (simp add: users_pool_def users_Exec_def)

lemma store_Delete_users: "store (snd (Delete users_pool i w)) = filter (\<lambda>u. ID u \<noteq> i) (store w)"
  by (simp add: Delete_unfold [OF users_Exec_delete] store_emit store_log_Error)

lemma Delete_users_absent:
  assumes "\<forall>u \<in> set (store w). ID u \<noteq> i"
  shows "fst (Delete users_pool i w) = Some (not_found i)"
proof -
  have "filter (\<lambda>u. ID u = i) (store w) = []"
    using assms by (simp add: filter_empty_conv)
  then show ?thesis
    by (simp add: Delete_unfold [OF users_Exec_delete])
qed

lemma Delete_twice: "fst (Delete users_pool i (snd (Delete users_pool i w))) = Some (not_found i)"
  by (rule Delete_users_absent) (simp add: store_Delete_users)

text \<open>
  C5: with an affected-row count that is not negative, \<^verbatim>\<open>Delete\<close> returns no error
  exactly when the statement executes without error and reports a count of at least 1; a
  count of zero gives the not-found error carrying the id; a failure of the execution
  gives an error wrapping the cause; and on the reference store a second \<^verbatim>\<open>Delete\<close> of
  an id, after a first one, returns the not-found error.
\<close>

theorem Delete_outcomes:
  assumes "Exec p delete_query [AInt64 i] (store w) = ((tag, xerr), s)"
    and "0 \<le> sint (RowsAffected tag)"
  shows "(fst (Delete p i w) = None \<longleftrightarrow> xerr = None \<and> 1 \<le> sint (RowsAffected tag))
       \<and> (xerr = None \<and> RowsAffected tag = 0 \<longrightarrow>
            fst (Delete p i w) = Some (Fresh (''user with id '' @ fmt_d i @ '' not found'')))
       \<and> (\<forall>e. xerr = Some e \<longrightarrow>
            fst (Delete p i w) = Some (Wrapped (''failed delete user: '' @ Error e) e)
            \<and> errors_Is (fst (Delete p i w)) e)
       \<and> (\<forall>t. fst (Delete users_pool i (snd (Delete users_pool i t)))
              = Some (Fresh (''user with id '' @ fmt_d i @ '' not found'')))"
proof -
  have nz: "RowsAffected tag \<noteq> 0 \<longleftrightarrow> 1 \<le> sint (RowsAffected tag)"
  proof
    assume "RowsAffected tag \<noteq> 0"
    then have "sint (RowsAffected tag) \<noteq> 0"
      by (simp add: signed_eq_0_iff)
    with assms(2) show "1 \<le> sint (RowsAffected tag)"
      by linarith
  next
    assume "1 \<le> sint (RowsAffected tag)"
    then show "RowsAffected tag \<noteq> 0"
      by auto
  qed
  have twice: "fst (Delete users_pool i (snd (Delete users_pool i t))) = Some (not_found i)" for t
    by (rule Delete_twice)
  show ?thesis
    using nz twice
    by (simp add: Delete_unfold [OF assms(1)] Errorf_w_def not_found_def error_Is_refl
        split: option.splits)
qed

theorem Delete_outcomes_witness:
  "fst (Delete (scripted_pool (CommandTag 1, None) no_rows (row_int64 0 None)) 42 w0) = None
   \<and> fst (Delete (scripted_pool (CommandTag 0, None) no_rows (row_int64 0 None)) 1 w0)
       = Some (Fresh ''user with id 1 not found'')
   \<and> fst (Delete (scripted_pool (CommandTag 0, Some connection_lost) no_rows (row_int64 0 None)) 1 w0)
       = Some (Wrapped ''failed delete user: database connection lost'' connection_lost)
   \<and> fst (Delete users_pool 42 \<lparr>store = [dima], events = []\<rparr>) = None
   \<and> fst (Delete users_pool 42 (snd (Delete users_pool 42 \<lparr>store = [dima], events = []\<rparr>)))
       = Some (Fresh ''user with id 42 not found'')"
proof -
  have f1: "fmt_d 1 = ''1''"
    by code_simp
  have f42: "fmt_d 42 = ''42''"
    by code_simp
  have a: "0 \<le> sint (RowsAffected (CommandTag 1))"
    by simp
  have b: "0 \<le> sint (RowsAffected (CommandTag 0))"
    by simp
  have c: "Exec users_pool delete_query [AInt64 42] (store \<lparr>store = [dima], events = []\<rparr>)
             = ((CommandTag 1, None), [])"
    by (simp add: users_Exec_delete dima_def)
  show ?thesis
    using Delete_outcomes [OF scripted_Exec [where x = "(CommandTag 1, None)" and q = no_rows
          and r = "row_int64 0 None" and args = "[AInt64 42]"] a]
      Delete_outcomes [OF scripted_Exec [where x = "(CommandTag 0, None)" and q = no_rows
          and r = "row_int64 0 None" and args = "[AInt64 1]"] b]
      Delete_outcomes [OF scripted_Exec [where x = "(CommandTag 0, Some connection_lost)" and q = no_rows
          and r = "row_int64 0 None" and args = "[AInt64 1]"] b]
      Delete_outcomes [OF c a]
    by (simp add: f1 f42 connection_lost_def)
qed

subsection \<open>List\<close>

lemma foldl_append_slice_Some: "foldl append_slice (Some ys) xs = Some (ys @ xs)"
  by (induction xs arbitrary: ys) simp_all

lemma foldl_append_slice_None: "foldl append_slice None xs = (if xs = [] then None else Some xs)"
  by (cases xs) (simp_all add: foldl_append_slice_Some)

lemma List_loop_all_scanned:
  assumes "\<forall>x \<in> set rs. snd x = None"
  shows "List_loop (rs @ rest) users w = List_loop rest (foldl append_slice users (map fst rs)) w"
  using assms
proof (induction rs arbitrary: users)
  case Nil
  then show ?case by simp
next
  case (Cons r rs)
  obtain u where r: "r = (u, None)"
    using Cons.prems by (cases r) simp
  have "\<forall>x \<in> set rs. snd x = None"
    using Cons.prems by simp
  then show ?case
    using Cons.IH [of "append_slice users u"] by (simp add: r)
qed

lemma List_loop_exhausted:
  assumes "\<forall>x \<in> set rs. snd x = None"
  shows "List_loop rs None w = (Inr (if rs = [] then None else Some (map fst rs)), w)"
  using List_loop_all_scanned [OF assms, of "[]" None w]
  by (simp add: foldl_append_slice_None)

lemma List_loop_scan_fails:
  assumes "\<forall>x \<in> set pre. snd x = None"
  shows "fst (List_loop (pre @ (u, Some e) # post) None w) = Inl (Errorf_w ''failed scan user List: '' e)"
  by (simp add: List_loop_all_scanned [OF assms])

lemma List_unfold:
  assumes "Query p list_query [AInt limit, AInt offset] (store w) = ((rows, qerr), s)"
  shows "fst (List p limit offset w) =
     (case qerr of
         Some e \<Rightarrow> (None, Some (Errorf_w ''failed query List: '' e))
       | None \<Rightarrow>
           (case fst (List_loop (remaining rows) None
                        (emit (PoolQuery list_query [AInt limit, AInt offset]) (w\<lparr>store := s\<rparr>))) of
               Inl e \<Rightarrow> (None, Some e)
             | Inr users \<Rightarrow>
                 (case Err rows of
                     Some e \<Rightarrow> (None, Some (Errorf_w ''rows interation List: '' e))
                   | None \<Rightarrow> (users, None))))"
  using assms
  by (simp add: List_def pool_Query_def split: option.splits prod.splits sum.splits)

text \<open>
  C7: when the query succeeds, \<^verbatim>\<open>List\<close> returns the scanned users in cursor order if
  every scan succeeds and the cursor reports no iteration error; the first failing scan
  gives a nil slice and an error wrapping its cause, whatever was scanned before; an
  iteration error reported after the loop gives a nil slice and an error wrapping it; an
  empty result gives the nil slice and no error.
\<close>

theorem List_outcomes:
  assumes q: "Query p list_query [AInt limit, AInt offset] (store w) = ((rows, None), s)"
  shows "((\<forall>x \<in> set (remaining rows). snd x = None) \<and> Err rows = None \<longrightarrow>
            fst (List p limit offset w)
              = (if remaining rows = [] then None else Some (map fst (remaining rows)), None))
       \<and> (\<forall>pre u e post. remaining rows = pre @ (u, Some e) # post
              \<and> (\<forall>x \<in> set pre. snd x = None) \<longrightarrow>
            fst (List p limit offset w)
              = (None, Some (Wrapped (''failed scan user List: '' @ Error e) e)))
       \<and> (\<forall>e. (\<forall>x \<in> set (remaining rows). snd x = None) \<and> Err rows = Some e \<longrightarrow>
            fst (List p limit offset w)
              = (None, Some (Wrapped (''rows interation List: '' @ Error e) e)))
       \<and> (remaining rows = [] \<and> Err rows = None \<longrightarrow>
            fst (List p limit offset w) = (None, None))"
proof -
  have ok: "fst (List p limit offset w)
              = (if remaining rows = [] then None else Some (map fst (remaining rows)), None)"
    if "\<forall>x \<in> set (remaining rows). snd x = None" and "Err rows = None"
    using that by (simp add: List_unfold [OF q] List_loop_exhausted)
  have scan: "fst (List p limit offset w)
                = (None, Some (Wrapped (''failed scan user List: '' @ Error e) e))"
    if "remaining rows = pre @ (u, Some e) # post" and "\<forall>x \<in> set pre. snd x = None"
    for pre u e post
    using that by (simp add: List_unfold [OF q] List_loop_scan_fails Errorf_w_def)
  have iter: "fst (List p limit offset w)
                = (None, Some (Wrapped (''rows interation List: '' @ Error e) e))"
    if "\<forall>x \<in> set (remaining rows). snd x = None" and "Err rows = Some e" for e
    using that by (simp add: List_unfold [OF q] List_loop_exhausted Errorf_w_def)
  have empty: "fst (List p limit offset w) = (None, None)"
    if "remaining rows = []" and "Err rows = None"
    using that by (simp add: List_unfold [OF q])
  show ?thesis
    using ok scan iter empty by blast
qed

theorem List_outcomes_witness:
  "fst (List (scripted_pool no_tag (\<lparr>remaining = [(dima, None), (no_user, None)], Err = None\<rparr>, None) (row_int64 0 None)) 2 0 w0)
     = (Some [dima, no_user], None)
   \<and> fst (List (scripted_pool no_tag (\<lparr>remaining = [(dima, None), (no_user, Some (Fresh ''invalid timestamp'')), (dima, None)], Err = None\<rparr>, None) (row_int64 0 None)) 10 0 w0)
     = (None, Some (Wrapped ''failed scan user List: invalid timestamp'' (Fresh ''invalid timestamp'')))
   \<and> fst (List (scripted_pool no_tag (\<lparr>remaining = [(dima, None)], Err = Some connection_lost\<rparr>, None) (row_int64 0 None)) 10 0 w0)
     = (None, Some (Wrapped ''rows interation List: database connection lost'' connection_lost))
   \<and> fst (List (scripted_pool no_tag (\<lparr>remaining = [], Err = None\<rparr>, None) (row_int64 0 None)) 10 0 w0)
     = (None, None)"
proof -
  have split3: "[(dima, None), (no_user, Some (Fresh ''invalid timestamp'')), (dima, None)]
      = [(dima, None)] @ (no_user, Some (Fresh ''invalid timestamp'')) # [(dima, None)]"
    by simp
  have a: "fst (List (scripted_pool no_tag (\<lparr>remaining = [(dima, None), (no_user, None)], Err = None\<rparr>, None) (row_int64 0 None)) 2 0 w0)
     = (Some [dima, no_user], None)"
    using List_outcomes [OF scripted_Query [where x = no_tag and r = "row_int64 0 None"
          and q = "(\<lparr>remaining = [(dima, None), (no_user, None)], Err = None\<rparr>, None)"
          and sql = list_query and args = "[AInt 2, AInt 0]"]]
    by simp
  have b: "fst (List (scripted_pool no_tag (\<lparr>remaining = [(dima, None), (no_user, Some (Fresh ''invalid timestamp'')), (dima, None)], Err = None\<rparr>, None) (row_int64 0 None)) 10 0 w0)
     = (None, Some (Wrapped ''failed scan user List: invalid timestamp'' (Fresh ''invalid timestamp'')))"
  proof -
    note t = List_outcomes [OF scripted_Query [where x = no_tag and r = "row_int64 0 None"
          and q = "(\<lparr>remaining = [(dima, None), (no_user, Some (Fresh ''invalid timestamp'')), (dima, None)], Err = None\<rparr>, None)"
          and sql = list_query and args = "[AInt 10, AInt 0]"]]
    from t have "\<forall>pre u e post.
        [(dima, None), (no_user, Some (Fresh ''invalid timestamp'')), (dima, None)] = pre @ (u, Some e) # post
          \<and> (\<forall>x \<in> set pre. snd x = None) \<longrightarrow>
        fst (List (scripted_pool no_tag (\<lparr>remaining = [(dima, None), (no_user, Some (Fresh ''invalid timestamp'')), (dima, None)], Err = None\<rparr>, None) (row_int64 0 None)) 10 0 w0)
          = (None, Some (Wrapped (''failed scan user List: '' @ Error e) e))"
      by simp
    from this [rule_format, of "[(dima, None)]" no_user "Fresh ''invalid timestamp''" "[(dima, None)]"]
    show ?thesis by simp
  qed
  have c: "fst (List (scripted_pool no_tag (\<lparr>remaining = [(dima, None)], Err = Some connection_lost\<rparr>, None) (row_int64 0 None)) 10 0 w0)
     = (None, Some (Wrapped ''rows interation List: database connection lost'' connection_lost))"
    using List_outcomes [OF scripted_Query [where x = no_tag and r = "row_int64 0 None"
          and q = "(\<lparr>remaining = [(dima, None)], Err = Some connection_lost\<rparr>, None)"
          and sql = list_query and args = "[AInt 10, AInt 0]"]]
    by (simp add: connection_lost_def)
  have d: "fst (List (scripted_pool no_tag (\<lparr>remaining = [], Err = None\<rparr>, None) (row_int64 0 None)) 10 0 w0)
     = (None, None)"
    using List_outcomes [OF scripted_Query [where x = no_tag and r = "row_int64 0 None"
          and q = "(\<lparr>remaining = [], Err = None\<rparr>, None)"
          and sql = list_query and args = "[AInt 10, AInt 0]"]]
    by simp
  show ?thesis
    using a b c d by simp
qed

subsection \<open>Result and error\<close>

text \<open>
  C9: \<^verbatim>\<open>Create\<close> and \<^verbatim>\<open>Count\<close> return 0 whenever their error is not nil;
  \<^verbatim>\<open>GetByID\<close> and \<^verbatim>\<open>Update\<close> return a nil user whenever their error is not nil and a
  user whenever it is nil; \<^verbatim>\<open>List\<close> returns the nil slice whenever its error is not nil.
\<close>

theorem result_or_error:
  "(snd (fst (Create p u w)) \<noteq> None \<longrightarrow> fst (fst (Create p u w)) = 0)
   \<and> (snd (fst (GetByID p i w)) \<noteq> None \<longrightarrow> fst (fst (GetByID p i w)) = None)
   \<and> (snd (fst (GetByID p i w)) = None \<longrightarrow> fst (fst (GetByID p i w)) \<noteq> None)
   \<and> (snd (fst (Update p u w)) \<noteq> None \<longrightarrow> fst (fst (Update p u w)) = None)
   \<and> (snd (fst (Update p u w)) = None \<longrightarrow> fst (fst (Update p u w)) \<noteq> None)
   \<and> (snd (fst (List p limit offset w)) \<noteq> None \<longrightarrow> fst (fst (List p limit offset w)) = None)
   \<and> (snd (fst (Count p w)) \<noteq> None \<longrightarrow> fst (fst (Count p w)) = 0)"
proof -
  have c: "snd (fst (Create p u w)) \<noteq> None \<longrightarrow> fst (fst (Create p u w)) = 0"
    by (simp add: Create_def split: prod.splits option.splits)
  have g: "(snd (fst (GetByID p i w)) \<noteq> None \<longrightarrow> fst (fst (GetByID p i w)) = None)
      \<and> (snd (fst (GetByID p i w)) = None \<longrightarrow> fst (fst (GetByID p i w)) \<noteq> None)"
    by (simp add: GetByID_def split: prod.splits option.splits list.splits)
  have up: "(snd (fst (Update p u w)) \<noteq> None \<longrightarrow> fst (fst (Update p u w)) = None)
      \<and> (snd (fst (Update p u w)) = None \<longrightarrow> fst (fst (Update p u w)) \<noteq> None)"
    by (simp add: Update_def Let_def split: prod.splits option.splits)
  have l: "snd (fst (List p limit offset w)) \<noteq> None \<longrightarrow> fst (fst (List p limit offset w)) = None"
    by (simp add: List_def split: prod.splits option.splits sum.splits)
  have n: "snd (fst (Count p w)) \<noteq> None \<longrightarrow> fst (fst (Count p w)) = 0"
    by (simp add: Count_def split: prod.splits option.splits)
  show ?thesis
    using c g up l n by simp
qed

theorem result_or_error_witness:
  "snd (fst (Create failing_pool dima w0)) \<noteq> None \<and> fst (fst (Create failing_pool dima w0)) = 0
   \<and> snd (fst (GetByID failing_pool 42 w0)) \<noteq> None \<and> fst (fst (GetByID failing_pool 42 w0)) = None
   \<and> snd (fst (Update failing_pool dima w0)) \<noteq> None \<and> fst (fst (Update failing_pool dima w0)) = None
   \<and> snd (fst (List failing_pool 10 0 w0)) \<noteq> None \<and> fst (fst (List failing_pool 10 0 w0)) = None
   \<and> snd (fst (Count failing_pool w0)) \<noteq> None \<and> fst (fst (Count failing_pool w0)) = 0
   \<and> snd (fst (GetByID (scripted_pool no_tag (\<lparr>remaining = [(dima, None)], Err = None\<rparr>, None) (row_User dima None)) 42 w0)) = None
   \<and> fst (fst (GetByID (scripted_pool no_tag (\<lparr>remaining = [(dima, None)], Err = None\<rparr>, None) (row_User dima None)) 42 w0)) \<noteq> None
   \<and> snd (fst (Update (scripted_pool no_tag (\<lparr>remaining = [(dima, None)], Err = None\<rparr>, None) (row_User dima None)) dima w0)) = None
   \<and> fst (fst (Update (scripted_pool no_tag (\<lparr>remaining = [(dima, None)], Err = None\<rparr>, None) (row_User dima None)) dima w0)) \<noteq> None"
proof -
  have nr: "\<not> error_Is connection_lost ErrNoRows"
    by (simp add: connection_lost_def ErrNoRows_def)
  have qr: "QueryRow failing_pool sql args s = (row_int64 0 (Some connection_lost), s)" for sql args s
    unfolding failing_pool_def by (rule scripted_QueryRow)
  have q: "Query failing_pool sql args s = ((\<lparr>remaining = [], Err = None\<rparr>, Some connection_lost), s)" for sql args s
    unfolding failing_pool_def by (rule scripted_Query)
  have su: "Scan_User (row_int64 0 (Some connection_lost)) = (no_user, Some connection_lost)"
    by (simp add: row_int64_def)
  have c: "snd (fst (Create failing_pool dima w0)) \<noteq> None"
    using nr by (simp add: Create_unfold [OF qr Scan_int64_row_int64])
  have g: "snd (fst (GetByID failing_pool 42 w0)) \<noteq> None"
    by (simp add: GetByID_unfold [OF q])
  have u: "snd (fst (Update failing_pool dima w0)) \<noteq> None"
    using nr by (simp add: Update_unfold [OF qr su])
  have l: "snd (fst (List failing_pool 10 0 w0)) \<noteq> None"
    by (simp add: List_unfold [OF q])
  have n: "snd (fst (Count failing_pool w0)) \<noteq> None"
    by (simp add: Count_unfold [OF qr Scan_int64_row_int64])
  have g2: "snd (fst (GetByID (scripted_pool no_tag (\<lparr>remaining = [(dima, None)], Err = None\<rparr>, None) (row_User dima None)) 42 w0)) = None"
    by (simp add: GetByID_unfold [OF scripted_Query])
  have u2: "snd (fst (Update (scripted_pool no_tag (\<lparr>remaining = [(dima, None)], Err = None\<rparr>, None) (row_User dima None)) dima w0)) = None"
    by (simp add: Update_unfold [OF scripted_QueryRow Scan_User_row_User])
  show ?thesis
    using c g u l n g2 u2
      result_or_error [of failing_pool dima w0 42 10 0]
      result_or_error [of "scripted_pool no_tag (\<lparr>remaining = [(dima, None)], Err = None\<rparr>, None) (row_User dima None)" dima w0 42 10 0]
    by simp
qed

subsection \<open>Logging of failures\<close>

lemma Create_logged:
  assumes "snd (fst (Create p u w)) = Some e"
  shows "(e = ErrUserAlreadyExists \<and> \<not> list_ex is_log (emitted w (snd (Create p u w))))
       \<or> (\<exists>c. snd (Scan_int64 (fst (QueryRow p create_query
                    [AString (Username u), AString (Email u), AString (PassHash u)] (store w)))) = Some c
              \<and> e = Errorf_w_s ErrDB c
              \<and> error_logged ''failed to create user'' [Field ''error'' (VError c)]
                   (emitted w (snd (Create p u w))))"
  using assms
  by (auto simp add: Create_def pool_QueryRow_def emit_def log_Error_def log_Info_def emitted_def
      error_logged_def split: prod.splits option.splits if_splits)

lemma GetByID_logged:
  assumes "snd (fst (GetByID p i w)) = Some e"
  shows "(e = not_found i \<and> \<not> list_ex (is_log_at ErrorLevel) (emitted w (snd (GetByID p i w)))
            \<and> list_ex (is_log_at InfoLevel) (emitted w (snd (GetByID p i w))))
       \<or> (\<exists>c. (e = Errorf_w ''failed GetByID query: '' c
                 \<and> error_logged ''failed to execute query GetByID''
                      [Field ''error'' (VError c), Field ''user_id'' (VInt64 i)]
                      (emitted w (snd (GetByID p i w))))
               \<or> (e = Errorf_w ''scan GetByID row: '' c
                 \<and> error_logged ''failed to scan row GetByID''
                      [Field ''error'' (VError c), Field ''user_id'' (VInt64 i)]
                      (emitted w (snd (GetByID p i w))))
               \<or> (e = Errorf_w ''rows integration GetByID: '' c
                 \<and> error_logged ''rows iteration err GetByID''
                      [Field ''error'' (VError c), Field ''user_id'' (VInt64 i)]
                      (emitted w (snd (GetByID p i w)))))"
  using assms
  by (auto simp add: GetByID_def pool_Query_def emit_def log_Error_def log_Info_def emitted_def
      error_logged_def split: prod.splits option.splits list.splits)

lemma Update_logged:
  assumes "snd (fst (Update p u w)) = Some e"
  shows "\<exists>c. error_logged ''failed to execute query Update''
                [Field ''error'' (VError c), Field ''user_id'' (VInt64 (ID u))]
                (emitted w (snd (Update p u w)))
            \<and> (e = Errorf_w ''failed query Update: '' c
                \<or> (e = not_found_w (ID u) c
                    \<and> error_logged ''user not found'' [Field ''user_id'' (VInt64 (ID u))]
                         (emitted w (snd (Update p u w)))))"
  using assms
  by (auto simp add: Update_def pool_QueryRow_def emit_def log_Error_def emitted_def Let_def
      error_logged_def split: prod.splits option.splits if_splits)

lemma Delete_logged:
  assumes "fst (Delete p i w) = Some e"
  shows "(e = not_found i
            \<and> error_logged ''user not found'' [Field ''user_id'' (VInt64 i)]
                 (emitted w (snd (Delete p i w))))
       \<or> (\<exists>c. e = Errorf_w ''failed delete user: '' c
              \<and> error_logged ''failed to execute query Delete''
                   [Field ''error'' (VError c), Field ''user_id'' (VInt64 i)]
                   (emitted w (snd (Delete p i w))))"
  using assms
  by (auto simp add: Delete_def pool_Exec_def emit_def log_Error_def emitted_def
      error_logged_def split: prod.splits option.splits if_splits)

lemma Count_logged:
  assumes "snd (fst (Count p w)) = Some e"
  shows "(e = ErrNoUsers \<and> error_logged ''not users found'' [] (emitted w (snd (Count p w))))
       \<or> (\<exists>c. e = Errorf_w ''failed query Count: '' c
              \<and> error_logged ''failed execute query Count'' [Field ''error'' (VError c)]
                   (emitted w (snd (Count p w))))"
  using assms
  by (auto simp add: Count_def pool_QueryRow_def emit_def log_Error_def emitted_def
      error_logged_def split: prod.splits option.splits if_splits)

lemma List_loop_events:
  "List_loop rs users w1 = (r, w2) \<Longrightarrow>
     (case r of
         Inl e \<Rightarrow> \<exists>c. e = Errorf_w ''failed scan user List: '' c
                   \<and> events w2 = events w1 @ [Log ErrorLevel ''failed scan List'' [Field ''error'' (VError c)]]
       | Inr us \<Rightarrow> w2 = w1)"
proof (induction rs users w1 rule: List_loop.induct)
  case (1 users w)
  then show ?case by auto
next
  case (2 u serr rest users w)
  show ?case
  proof (cases serr)
    case None
    then show ?thesis
      using 2 by simp
  next
    case (Some e)
    then show ?thesis
      using "2.prems" by (auto simp add: log_Error_def emit_def)
  qed
qed

lemma List_logged:
  assumes "snd (fst (List p limit offset w)) = Some e"
  shows "\<exists>c. (e = Errorf_w ''failed query List: '' c
               \<and> error_logged ''failed to execute query List'' [Field ''error'' (VError c)]
                    (emitted w (snd (List p limit offset w))))
           \<or> (e = Errorf_w ''failed scan user List: '' c
               \<and> error_logged ''failed scan List'' [Field ''error'' (VError c)]
                    (emitted w (snd (List p limit offset w))))
           \<or> (e = Errorf_w ''rows interation List: '' c
               \<and> error_logged ''rows iteration error in users List'' [Field ''error'' (VError c)]
                    (emitted w (snd (List p limit offset w))))"
proof -
  obtain rows qerr s where q: "Query p list_query [AInt limit, AInt offset] (store w) = ((rows, qerr), s)"
    by (metis surj_pair)
  define w1 where "w1 = emit (PoolQuery list_query [AInt limit, AInt offset]) (w\<lparr>store := s\<rparr>)"
  have ev1: "events w1 = events w @ [PoolQuery list_query [AInt limit, AInt offset]]"
    by (simp add: w1_def emit_def)
  obtain r w2 where loop: "List_loop (remaining rows) None w1 = (r, w2)"
    by (metis surj_pair)
  note le = List_loop_events [OF loop]
  show ?thesis
  proof (cases qerr)
    case (Some c)
    then show ?thesis
      using assms q
      by (auto simp add: List_def pool_Query_def emit_def log_Error_def emitted_def error_logged_def)
  next
    case None
    show ?thesis
    proof (cases r)
      case (Inl e')
      then obtain c where c: "e' = Errorf_w ''failed scan user List: '' c"
        "events w2 = events w1 @ [Log ErrorLevel ''failed scan List'' [Field ''error'' (VError c)]]"
        using le by auto
      have "List p limit offset w = ((None, Some e'), emit RowsClose w2)"
        using q None loop Inl by (simp add: List_def pool_Query_def w1_def)
      then show ?thesis
        using assms c ev1
        by (auto simp add: emit_def emitted_def error_logged_def)
    next
      case (Inr us)
      then have w2: "w2 = w1"
        using le by simp
      obtain c where c: "Err rows = Some c"
        using assms q None loop Inr by (auto simp add: List_def pool_Query_def w1_def split: option.splits)
      have "List p limit offset w = ((None, Some (Errorf_w ''rows interation List: '' c)),
              emit RowsClose (log_Error ''rows iteration error in users List'' [Field ''error'' (VError c)] w1))"
        using q None loop Inr c w2 by (simp add: List_def pool_Query_def w1_def)
      then show ?thesis
        using assms ev1
        by (auto simp add: emit_def log_Error_def emitted_def error_logged_def)
    qed
  qed
qed

text \<open>
  C8, as stated, fails on two returns: \<^verbatim>\<open>Create\<close> returns
  \<^verbatim>\<open>storage.ErrUserAlreadyExists\<close> without any call of the logger, and \<^verbatim>\<open>GetByID\<close>
  returns its not-found error after a call of \<^verbatim>\<open>Logger.Info\<close>, not of
  \<^verbatim>\<open>Logger.Error\<close>.
\<close>

theorem error_log_counterexample:
  "fst (Create (scripted_pool no_tag no_rows (row_int64 0 (Some ErrNoRows))) dima w0)
     = (0, Some ErrUserAlreadyExists)
   \<and> emitted w0 (snd (Create (scripted_pool no_tag no_rows (row_int64 0 (Some ErrNoRows))) dima w0))
     = [PoolQueryRow create_query [AString ''dima'', AString ''dima@example.com'', AString ''hash'']]
   \<and> \<not> list_ex (is_log_at ErrorLevel)
        (emitted w0 (snd (Create (scripted_pool no_tag no_rows (row_int64 0 (Some ErrNoRows))) dima w0)))
   \<and> fst (GetByID (scripted_pool no_tag no_rows (row_int64 0 None)) 99 w0)
     = (None, Some (Fresh ''user with id 99 not found''))
   \<and> emitted w0 (snd (GetByID (scripted_pool no_tag no_rows (row_int64 0 None)) 99 w0))
     = [PoolQuery getbyid_query [AInt64 99], Log InfoLevel ''user not found'' [Field ''user_id'' (VInt64 99)],
        RowsClose]
   \<and> \<not> list_ex (is_log_at ErrorLevel)
        (emitted w0 (snd (GetByID (scripted_pool no_tag no_rows (row_int64 0 None)) 99 w0)))"
proof -
  have f99: "fmt_d 99 = ''99''"
    by code_simp
  have c: "Create (scripted_pool no_tag no_rows (row_int64 0 (Some ErrNoRows))) dima w0
      = ((0, Some ErrUserAlreadyExists),
         \<lparr>store = (), events = [PoolQueryRow create_query [AString ''dima'', AString ''dima@example.com'', AString ''hash'']]\<rparr>)"
    by (simp add: Create_def pool_QueryRow_def scripted_pool_def row_int64_def error_Is_refl
        emit_def w0_def dima_def)
  have g: "GetByID (scripted_pool no_tag no_rows (row_int64 0 None)) 99 w0
      = ((None, Some (Fresh ''user with id 99 not found'')),
         \<lparr>store = (), events = [PoolQuery getbyid_query [AInt64 99],
            Log InfoLevel ''user not found'' [Field ''user_id'' (VInt64 99)], RowsClose]\<rparr>)"
    by (simp add: GetByID_def pool_Query_def scripted_pool_def no_rows_def not_found_def f99
        emit_def log_Info_def w0_def)
  have e0: "events w0 = []"
    by (simp add: w0_def)
  show ?thesis
    by (simp add: c g e0 emitted_def)
qed

text \<open>
  C8, amended: for every operation of the user repository and every input, whenever the
  operation returns an error other than the already-exists error of \<^verbatim>\<open>Create\<close> and the
  not-found error of \<^verbatim>\<open>GetByID\<close>, a log event at error severity was emitted by that call
  before the error is returned, with the operation context as its message, the entity id
  under the key \<^verbatim>\<open>user_id\<close> when available (\<^verbatim>\<open>GetByID\<close>, \<^verbatim>\<open>Update\<close>, \<^verbatim>\<open>Delete\<close>) and
  the underlying cause under the key \<^verbatim>\<open>error\<close> when there is one. The messages are:
  \<^verbatim>\<open>failed to create user\<close> in \<^verbatim>\<open>Create\<close>;
  \<^verbatim>\<open>failed to execute query GetByID\<close>, \<^verbatim>\<open>failed to scan row GetByID\<close> and
  \<^verbatim>\<open>rows iteration err GetByID\<close> in \<^verbatim>\<open>GetByID\<close>;
  \<^verbatim>\<open>failed to execute query Update\<close>, followed by \<^verbatim>\<open>user not found\<close> on the zero-rows
  condition, in \<^verbatim>\<open>Update\<close>;
  \<^verbatim>\<open>failed to execute query Delete\<close>, and \<^verbatim>\<open>user not found\<close> on a count of zero, in
  \<^verbatim>\<open>Delete\<close>;
  \<^verbatim>\<open>failed to execute query List\<close>, \<^verbatim>\<open>failed scan List\<close> and
  \<^verbatim>\<open>rows iteration error in users List\<close> in \<^verbatim>\<open>List\<close>;
  \<^verbatim>\<open>failed execute query Count\<close>, and \<^verbatim>\<open>not users found\<close> on a count of zero, in
  \<^verbatim>\<open>Count\<close>.
  The already-exists return of \<^verbatim>\<open>Create\<close> emits no log event, and the not-found return of
  \<^verbatim>\<open>GetByID\<close> emits an event at info severity only.
\<close>

theorem error_returns_logged:
  "(\<forall>e. snd (fst (Create p u w)) = Some e \<longrightarrow>
       (e = ErrUserAlreadyExists \<and> \<not> list_ex is_log (emitted w (snd (Create p u w))))
       \<or> (\<exists>c. snd (Scan_int64 (fst (QueryRow p create_query
                    [AString (Username u), AString (Email u), AString (PassHash u)] (store w)))) = Some c
              \<and> e = Errorf_w_s ErrDB c
              \<and> error_logged ''failed to create user'' [Field ''error'' (VError c)]
                   (emitted w (snd (Create p u w)))))
   \<and> (\<forall>e. snd (fst (GetByID p i w)) = Some e \<longrightarrow>
       (e = not_found i \<and> \<not> list_ex (is_log_at ErrorLevel) (emitted w (snd (GetByID p i w)))
          \<and> list_ex (is_log_at InfoLevel) (emitted w (snd (GetByID p i w))))
       \<or> (\<exists>c. (e = Errorf_w ''failed GetByID query: '' c
                 \<and> error_logged ''failed to execute query GetByID''
                      [Field ''error'' (VError c), Field ''user_id'' (VInt64 i)]
                      (emitted w (snd (GetByID p i w))))
               \<or> (e = Errorf_w ''scan GetByID row: '' c
                 \<and> error_logged ''failed to scan row GetByID''
                      [Field ''error'' (VError c), Field ''user_id'' (VInt64 i)]
                      (emitted w (snd (GetByID p i w))))
               \<or> (e = Errorf_w ''rows integration GetByID: '' c
                 \<and> error_logged ''rows iteration err GetByID''
                      [Field ''error'' (VError c), Field ''user_id'' (VInt64 i)]
                      (emitted w (snd (GetByID p i w))))))
   \<and> (\<forall>e. snd (fst (Update p u w)) = Some e \<longrightarrow>
       (\<exists>c. error_logged ''failed to execute query Update''
                [Field ''error'' (VError c), Field ''user_id'' (VInt64 (ID u))]
                (emitted w (snd (Update p u w)))
            \<and> (e = Errorf_w ''failed query Update: '' c
                \<or> (e = not_found_w (ID u) c
                    \<and> error_logged ''user not found'' [Field ''user_id'' (VInt64 (ID u))]
                         (emitted w (snd (Update p u w)))))))
   \<and> (\<forall>e. fst (Delete p i w) = Some e \<longrightarrow>
       (e = not_found i
            \<and> error_logged ''user not found'' [Field ''user_id'' (VInt64 i)]
                 (emitted w (snd (Delete p i w))))
       \<or> (\<exists>c. e = Errorf_w ''failed delete user: '' c
              \<and> error_logged ''failed to execute query Delete''
                   [Field ''error'' (VError c), Field ''user_id'' (VInt64 i)]
                   (emitted w (snd (Delete p i w)))))
   \<and> (\<forall>e. snd (fst (List p limit offset w)) = Some e \<longrightarrow>
       (\<exists>c. (e = Errorf_w ''failed query List: '' c
               \<and> error_logged ''failed to execute query List'' [Field ''error'' (VError c)]
                    (emitted w (snd (List p limit offset w))))
           \<or> (e = Errorf_w ''failed scan user List: '' c
               \<and> error_logged ''failed scan List'' [Field ''error'' (VError c)]
                    (emitted w (snd (List p limit offset w))))
           \<or> (e = Errorf_w ''rows interation List: '' c
               \<and> error_logged ''rows iteration error in users List'' [Field ''error'' (VError c)]
                    (emitted w (snd (List p limit offset w))))))
   \<and> (\<forall>e. snd (fst (Count p w)) = Some e \<longrightarrow>
       (e = ErrNoUsers \<and> error_logged ''not users found'' [] (emitted w (snd (Count p w))))
       \<or> (\<exists>c. e = Errorf_w ''failed query Count: '' c
              \<and> error_logged ''failed execute query Count'' [Field ''error'' (VError c)]
                   (emitted w (snd (Count p w)))))"
proof -
  note c = Create_logged [of p u w]
  note g = GetByID_logged [of p i w]
  note up = Update_logged [of p u w]
  note d = Delete_logged [of p i w]
  note l = List_logged [of p limit offset w]
  note n = Count_logged [of p w]
  show ?thesis
    by (intro conjI allI impI) (rule c g up d l n, assumption)+
qed

theorem error_returns_logged_witness:
  "snd (fst (Create failing_pool dima w0)) = Some (Errorf_w_s ErrDB connection_lost)
   \<and> error_logged ''failed to create user'' [Field ''error'' (VError connection_lost)]
        (emitted w0 (snd (Create failing_pool dima w0)))
   \<and> snd (fst (GetByID failing_pool 42 w0)) = Some (Errorf_w ''failed GetByID query: '' connection_lost)
   \<and> error_logged ''failed to execute query GetByID''
        [Field ''error'' (VError connection_lost), Field ''user_id'' (VInt64 42)]
        (emitted w0 (snd (GetByID failing_pool 42 w0)))
   \<and> snd (fst (Update failing_pool dima w0)) = Some (Errorf_w ''failed query Update: '' connection_lost)
   \<and> error_logged ''failed to execute query Update''
        [Field ''error'' (VError connection_lost), Field ''user_id'' (VInt64 42)]
        (emitted w0 (snd (Update failing_pool dima w0)))
   \<and> fst (Delete failing_pool 42 w0) = Some (Errorf_w ''failed delete user: '' connection_lost)
   \<and> error_logged ''failed to execute query Delete''
        [Field ''error'' (VError connection_lost), Field ''user_id'' (VInt64 42)]
        (emitted w0 (snd (Delete failing_pool 42 w0)))
   \<and> snd (fst (List failing_pool 10 0 w0)) = Some (Errorf_w ''failed query List: '' connection_lost)
   \<and> error_logged ''failed to execute query List'' [Field ''error'' (VError connection_lost)]
        (emitted w0 (snd (List failing_pool 10 0 w0)))
   \<and> snd (fst (Count failing_pool w0)) = Some (Errorf_w ''failed query Count: '' connection_lost)
   \<and> error_logged ''failed execute query Count'' [Field ''error'' (VError connection_lost)]
        (emitted w0 (snd (Count failing_pool w0)))
   \<and> fst (Delete (scripted_pool (CommandTag 0, None) no_rows (row_int64 0 None)) 1 w0) = Some (not_found 1)
   \<and> error_logged ''user not found'' [Field ''user_id'' (VInt64 1)]
        (emitted w0 (snd (Delete (scripted_pool (CommandTag 0, None) no_rows (row_int64 0 None)) 1 w0)))
   \<and> snd (fst (Count (scripted_pool no_tag no_rows (row_int64 0 None)) w0)) = Some ErrNoUsers
   \<and> error_logged ''not users found'' []
        (emitted w0 (snd (Count (scripted_pool no_tag no_rows (row_int64 0 None)) w0)))"
proof -
  have nr: "\<not> error_Is connection_lost ErrNoRows"
    by (simp add: connection_lost_def ErrNoRows_def)
  have qr: "QueryRow failing_pool sql args s = (row_int64 0 (Some connection_lost), s)" for sql args s
    unfolding failing_pool_def by (rule scripted_QueryRow)
  have q: "Query failing_pool sql args s = ((\<lparr>remaining = [], Err = None\<rparr>, Some connection_lost), s)" for sql args s
    unfolding failing_pool_def by (rule scripted_Query)
  have x: "Exec failing_pool sql args s = ((CommandTag 0, Some connection_lost), s)" for sql args s
    unfolding failing_pool_def by (rule scripted_Exec)
  have su: "Scan_User (row_int64 0 (Some connection_lost)) = (no_user, Some connection_lost)"
    by (simp add: row_int64_def)
  have c: "snd (fst (Create failing_pool dima w0)) = Some (Errorf_w_s ErrDB connection_lost)"
    using nr by (simp add: Create_unfold [OF qr Scan_int64_row_int64])
  have g: "snd (fst (GetByID failing_pool 42 w0)) = Some (Errorf_w ''failed GetByID query: '' connection_lost)"
    by (simp add: GetByID_unfold [OF q])
  have u: "snd (fst (Update failing_pool dima w0)) = Some (Errorf_w ''failed query Update: '' connection_lost)"
    using nr by (simp add: Update_unfold [OF qr su])
  have d: "fst (Delete failing_pool 42 w0) = Some (Errorf_w ''failed delete user: '' connection_lost)"
    by (simp add: Delete_unfold [OF x])
  have l: "snd (fst (List failing_pool 10 0 w0)) = Some (Errorf_w ''failed query List: '' connection_lost)"
    by (simp add: List_unfold [OF q])
  have n: "snd (fst (Count failing_pool w0)) = Some (Errorf_w ''failed query Count: '' connection_lost)"
    by (simp add: Count_unfold [OF qr Scan_int64_row_int64])
  have d0: "fst (Delete (scripted_pool (CommandTag 0, None) no_rows (row_int64 0 None)) 1 w0) = Some (not_found 1)"
    by (simp add: Delete_unfold [OF scripted_Exec])
  have n0: "snd (fst (Count (scripted_pool no_tag no_rows (row_int64 0 None)) w0)) = Some ErrNoUsers"
    by (simp add: Count_unfold [OF scripted_QueryRow Scan_int64_row_int64])
  have id: "ID dima = 42"
    by (simp add: dima_def)
  have ne: "Errorf_w_s ErrDB connection_lost \<noteq> ErrUserAlreadyExists"
    "Errorf_w pre connection_lost \<noteq> not_found j"
    "Errorf_w pre connection_lost \<noteq> ErrNoUsers"
    "Errorf_w ''failed query Update: '' connection_lost \<noteq> not_found_w j c'"
    "not_found j \<noteq> Errorf_w pre c'"
    "ErrNoUsers \<noteq> Errorf_w pre c'" for pre j c'
    by (simp_all add: Errorf_w_s_def Errorf_w_def ErrUserAlreadyExists_def not_found_def
        ErrNoUsers_def not_found_w_def)
  have inj: "Errorf_w pre connection_lost = Errorf_w pre' c' \<longleftrightarrow> pre = pre' \<and> c' = connection_lost" for pre pre' c'
    by (auto simp add: Errorf_w_def)
  note t = error_returns_logged [of failing_pool dima w0 42 10 0]
  note t0 = error_returns_logged [of "scripted_pool (CommandTag 0, None) no_rows (row_int64 0 None)" dima w0 1 10 0]
  note t1 = error_returns_logged [of "scripted_pool no_tag no_rows (row_int64 0 None)" dima w0 1 10 0]
  have sc: "snd (Scan_int64 (fst (QueryRow failing_pool create_query
      [AString (Username dima), AString (Email dima), AString (PassHash dima)] (store w0))))
      = Some connection_lost"
    unfolding qr by (simp add: Scan_int64_row_int64)
  have tc: "error_logged ''failed to create user'' [Field ''error'' (VError connection_lost)]
        (emitted w0 (snd (Create failing_pool dima w0)))"
    using t [THEN conjunct1, rule_format, OF c] ne(1) unfolding sc by blast
  have tg: "error_logged ''failed to execute query GetByID''
        [Field ''error'' (VError connection_lost), Field ''user_id'' (VInt64 42)]
        (emitted w0 (snd (GetByID failing_pool 42 w0)))"
    using t [THEN conjunct2, THEN conjunct1, rule_format, OF g] ne(2)
    by (auto simp add: inj)
  have tu: "error_logged ''failed to execute query Update''
        [Field ''error'' (VError connection_lost), Field ''user_id'' (VInt64 42)]
        (emitted w0 (snd (Update failing_pool dima w0)))"
    using t [THEN conjunct2, THEN conjunct2, THEN conjunct1, rule_format, OF u] ne(4)
    unfolding id by (auto simp add: inj)
  have td: "error_logged ''failed to execute query Delete''
        [Field ''error'' (VError connection_lost), Field ''user_id'' (VInt64 42)]
        (emitted w0 (snd (Delete failing_pool 42 w0)))"
    using t [THEN conjunct2, THEN conjunct2, THEN conjunct2, THEN conjunct1, rule_format, OF d]
      ne(2) by (auto simp add: inj)
  have tl: "error_logged ''failed to execute query List'' [Field ''error'' (VError connection_lost)]
        (emitted w0 (snd (List failing_pool 10 0 w0)))"
    using t [THEN conjunct2, THEN conjunct2, THEN conjunct2, THEN conjunct2, THEN conjunct1,
        rule_format, OF l] by (auto simp add: inj)
  have tn: "error_logged ''failed execute query Count'' [Field ''error'' (VError connection_lost)]
        (emitted w0 (snd (Count failing_pool w0)))"
    using t [THEN conjunct2, THEN conjunct2, THEN conjunct2, THEN conjunct2, THEN conjunct2,
        rule_format, OF n] ne(3) by (auto simp add: inj)
  have td0: "error_logged ''user not found'' [Field ''user_id'' (VInt64 1)]
        (emitted w0 (snd (Delete (scripted_pool (CommandTag 0, None) no_rows (row_int64 0 None)) 1 w0)))"
    using t0 [THEN conjunct2, THEN conjunct2, THEN conjunct2, THEN conjunct1, rule_format, OF d0]
      ne(5) by blast
  have tn0: "error_logged ''not users found'' []
        (emitted w0 (snd (Count (scripted_pool no_tag no_rows (row_int64 0 None)) w0)))"
    using t1 [THEN conjunct2, THEN conjunct2, THEN conjunct2, THEN conjunct2, THEN conjunct2,
        rule_format, OF n0] ne(6) by blast
  show ?thesis
    using c g u d l n d0 n0 tc tg tu td tl tn td0 tn0 by simp
qed

end
